theory Spec2Isabelle
  imports Complex_Main "HOL-Library.AList"
begin

section \<open>Numeric sequences (detect\_highlights.py)\<close>

text \<open>
  A numeric sequence is a numpy array of floats. An entry is \<open>None\<close> when it is
  not-a-number and \<open>Some v\<close> otherwise; finite floats are modelled by the reals
  they denote, so rounding and infinities are outside the model. Indices are Python
  integers.
\<close>

datatype error = IndexError | TypeError

text \<open>\<^verbatim>\<open>values[~np.isnan(values)]\<close>: the non-missing entries, in order.\<close>

fun clean :: "real option list \<Rightarrow> real list" where
  "clean [] = []"
| "clean (None # vs) = clean vs"
| "clean (Some v # vs) = v # clean vs"

text \<open>\<^verbatim>\<open>np.mean\<close> and \<^verbatim>\<open>np.var\<close> (population variance) of a non-empty array.\<close>

definition np_mean :: "real list \<Rightarrow> real" where
  "np_mean xs = sum_list xs / real (length xs)"

definition np_var :: "real list \<Rightarrow> real" where
  "np_var xs = np_mean (map (\<lambda>x. (x - np_mean xs)\<^sup>2) xs)"



text \<open>Python's \<^verbatim>\<open>round(x, 2)\<close>: to the nearest hundredth, ties to even.\<close>

definition round_half_even :: "real \<Rightarrow> int" where
  "round_half_even y =
     (let f = \<lfloor>y\<rfloor>; d = y - of_int f
      in if d < 1 / 2 then f else if d > 1 / 2 then f + 1 else if even f then f else f + 1)"

definition py_round2 :: "real \<Rightarrow> real" where
  "py_round2 x = of_int (round_half_even (x * 100)) / 100"

text \<open>Python indexing \<^verbatim>\<open>xs[i]\<close> and slicing \<^verbatim>\<open>xs[a:b]\<close> with integer bounds.\<close>

definition py_get :: "'a list \<Rightarrow> int \<Rightarrow> error + 'a" where
  "py_get xs i =
     (if 0 \<le> i \<and> i < int (length xs) then Inr (xs ! nat i)
      else if i < 0 \<and> - int (length xs) \<le> i then Inr (xs ! nat (int (length xs) + i))
      else Inl IndexError)"

definition slice_bound :: "nat \<Rightarrow> int \<Rightarrow> nat" where
  "slice_bound n i = (if i < 0 then nat (max (int n + i) 0) else min (nat i) n)"

definition py_slice :: "'a list \<Rightarrow> int \<Rightarrow> int \<Rightarrow> 'a list" where
  "py_slice xs a b =
     (let lo = slice_bound (length xs) a; hi = slice_bound (length xs) b
      in take (hi - lo) (drop lo xs))"

section \<open>Highlight records\<close>

text \<open>
  The label of a highlight is an f-string; \<open>Fmt1 p x\<close> stands for the prefix \<open>p\<close>
  followed by \<open>x\<close> printed with one decimal (\<^verbatim>\<open>{x:.1f}\<close>). \<open>metric\<close> is the
  method-specific diagnostic field (\<^verbatim>\<open>z_score\<close>, \<^verbatim>\<open>shift_magnitude\<close>) when present.
\<close>

datatype label_text = Text string | Fmt1 string real

record highlight =
  index :: int
  val :: real
  reason :: string
  method_name :: string
  severity :: string
  label :: label_text
  suggested_style :: string
  metric :: "(string \<times> real) option"

section \<open>Z-score detector\<close>



section \<open>Min/max detector\<close>





section \<open>Changepoint detector\<close>

text \<open>
  The body of the loop at a position \<open>i\<close> whose own value \<open>v\<close> is not missing:
  no highlight or one.
\<close>

definition changepoint_at ::
  "real option list \<Rightarrow> int \<Rightarrow> real \<Rightarrow> int \<Rightarrow> real \<Rightarrow> highlight list" where
  "changepoint_at values window threshold i v =
     (let left_clean = clean (py_slice values (max 0 (i - window)) i);
          right_clean = clean (py_slice values (i + 1) (i + 1 + window))
      in if length left_clean < 2 \<or> length right_clean < 2 then []
         else
           (let left_mean = np_mean left_clean;
                right_mean = np_mean right_clean;
                pooled_std = sqrt ((np_var left_clean * real (length left_clean)
                                    + np_var right_clean * real (length right_clean))
                                   / real (length left_clean + length right_clean))
            in if pooled_std = 0 then []
               else
                 (let shift = \<bar>right_mean - left_mean\<bar> / pooled_std
                  in if shift > threshold then
                       (let direction = (if right_mean > left_mean then ''increase'' else ''decrease'')
                        in [\<lparr>index = i, val = v,
                             reason = ''Changepoint ('' @ direction @ '')'',
                             method_name = ''changepoint'',
                             severity = (if shift > threshold + 1 then ''high'' else ''medium''),
                             label = Text (''Shift: '' @ direction),
                             suggested_style = ''band_shade'',
                             metric = Some (''shift_magnitude'', py_round2 shift)\<rparr>])
                     else [])))"

text \<open>
  The loop over \<^verbatim>\<open>range(window, n - window)\<close>. Reading \<^verbatim>\<open>values[i]\<close> raises
  when \<open>i\<close> is out of range, which ends the whole call.
\<close>

fun changepoint_loop ::
  "real option list \<Rightarrow> int \<Rightarrow> real \<Rightarrow> int list \<Rightarrow> error + highlight list" where
  "changepoint_loop values window threshold [] = Inr []"
| "changepoint_loop values window threshold (i # is) =
     (case py_get values i of
        Inl e \<Rightarrow> Inl e
      | Inr None \<Rightarrow> changepoint_loop values window threshold is
      | Inr (Some v) \<Rightarrow>
          (case changepoint_loop values window threshold is of
             Inl e \<Rightarrow> Inl e
           | Inr hs \<Rightarrow> Inr (changepoint_at values window threshold i v @ hs)))"

definition detect_changepoint ::
  "real option list \<Rightarrow> int \<Rightarrow> real \<Rightarrow> error + highlight list" where
  "detect_changepoint values window threshold =
     (let n = int (length values)
      in if n < window * 2 + 1 then Inr []
         else changepoint_loop values window threshold [window ..  n - window - 1])"

section \<open>Merge / deduplicate\<close>




section \<open>Tables (generate\_chart.py)\<close>

text \<open>
  A pandas DataFrame with the default range index: ordered, named columns, each with a
  dtype, and ordered rows of cells, one cell per column. Two dtypes are modelled: a
  numeric column (int64 or float64; numbers as reals, \<open>NaN\<close> for a missing value) and
  an object column, whose cells may be strings, numbers or missing. Boolean, datetime
  and categorical columns are outside the model. Library calls follow pandas 2.
\<close>

datatype cell = Num real | NaN | Str string

datatype dtype = Numeric | Object

record table =
  columns :: "(string \<times> dtype) list"
  rows :: "cell list list"

definition names :: "table \<Rightarrow> string list" where
  "names t = map fst (columns t)"

text \<open>The position of a column name (the first one, should a name repeat).\<close>

fun pos :: "'a \<Rightarrow> 'a list \<Rightarrow> nat" where
  "pos c [] = 0"
| "pos c (x # xs) = (if x = c then 0 else Suc (pos c xs))"

definition dtype_of :: "table \<Rightarrow> string \<Rightarrow> dtype" where
  "dtype_of t c = snd (columns t ! pos c (names t))"

text \<open>\<^verbatim>\<open>df[c]\<close> restricted to some rows of the table.\<close>

definition cells_of :: "table \<Rightarrow> string \<Rightarrow> cell list list \<Rightarrow> cell list" where
  "cells_of t c rs = map (\<lambda>r. r ! pos c (names t)) rs"

text \<open>The numbers among some cells: missing values are skipped by every aggregate.\<close>

fun nums :: "cell list \<Rightarrow> real list" where
  "nums [] = []"
| "nums (Num v # cs) = v # nums cs"
| "nums (c # cs) = nums cs"

fun strs :: "cell list \<Rightarrow> string list" where
  "strs [] = []"
| "strs (Str s # cs) = s # strs cs"
| "strs (c # cs) = strs cs"


subsection \<open>Ordering cells\<close>

text \<open>Python compares strings by code point, position by position.\<close>

fun str_le :: "string \<Rightarrow> string \<Rightarrow> bool" where
  "str_le [] t = True"
| "str_le (c # s) [] = False"
| "str_le (c # s) (d # t) =
     ((of_char c :: nat) < of_char d \<or> (c = d \<and> str_le s t))"

text \<open>
  Numbers by value, strings by \<^const>\<open>str_le\<close>; numbers before strings and missing
  values last, which is the order pandas gives the keys of a group-by.
\<close>

fun cell_le :: "cell \<Rightarrow> cell \<Rightarrow> bool" where
  "cell_le (Num a) (Num b) = (a \<le> b)"
| "cell_le (Num a) c = True"
| "cell_le (Str a) (Str b) = str_le a b"
| "cell_le (Str a) (Num b) = False"
| "cell_le (Str a) NaN = True"
| "cell_le NaN NaN = True"
| "cell_le NaN c = False"

text \<open>A stable insertion sort under a comparison.\<close>

fun insort_by :: "('a \<Rightarrow> 'a \<Rightarrow> bool) \<Rightarrow> 'a \<Rightarrow> 'a list \<Rightarrow> 'a list" where
  "insort_by le x [] = [x]"
| "insort_by le x (y # ys) = (if le x y then x # y # ys else y # insort_by le x ys)"

definition sort_by_le :: "('a \<Rightarrow> 'a \<Rightarrow> bool) \<Rightarrow> 'a list \<Rightarrow> 'a list" where
  "sort_by_le le xs = foldr (insort_by le) xs []"

fun is_str :: "cell \<Rightarrow> bool" where
  "is_str (Str s) = True"
| "is_str c = False"

fun is_num :: "cell \<Rightarrow> bool" where
  "is_num (Num v) = True"
| "is_num c = False"

text \<open>Python has no \<^verbatim>\<open><\<close> between a string and a number.\<close>

definition comparable :: "cell list \<Rightarrow> bool" where
  "comparable cs \<longleftrightarrow> list_all is_num cs \<or> list_all is_str cs"

subsection \<open>Library operations\<close>

definition bind_err :: "error + 'a \<Rightarrow> ('a \<Rightarrow> error + 'b) \<Rightarrow> error + 'b" where
  "bind_err m f = (case m of Inl e \<Rightarrow> Inl e | Inr x \<Rightarrow> f x)"

text \<open>
  \<^verbatim>\<open>df.sort_values(c, ascending=...).reset_index(drop=True)\<close>: the rows with a value
  in \<open>c\<close> in order, then the rows where it is missing, in their input order. Descending
  order is the ascending sort of the reversed rows, reversed, so equal values keep
  their input order either way. (The library's default sort promises no order among
  equal values; the model takes the stable one.)
\<close>

definition sort_values :: "table \<Rightarrow> string \<Rightarrow> bool \<Rightarrow> error + table" where
  "sort_values t c ascending =
     (let i = pos c (names t);
          le = (\<lambda>r s. cell_le (r ! i) (s ! i));
          present = filter (\<lambda>r. r ! i \<noteq> NaN) (rows t);
          missing = filter (\<lambda>r. r ! i = NaN) (rows t)
      in if \<not> comparable (map (\<lambda>r. r ! i) present) then Inl TypeError
         else Inr (t\<lparr>rows :=
                (if ascending then sort_by_le le present
                 else rev (sort_by_le le (rev present))) @ missing\<rparr>))"

text \<open>
  \<^verbatim>\<open>df.nlargest(n, c)\<close> and \<^verbatim>\<open>df.nsmallest(n, c)\<close> with \<^verbatim>\<open>reset_index(drop=True)\<close>:
  a type error on an object column; otherwise the first \<open>n\<close> rows in descending
  (ascending) order of \<open>c\<close>, the first occurrence first among equal values and the rows
  with a missing value last.
\<close>

definition nlargest :: "table \<Rightarrow> nat \<Rightarrow> string \<Rightarrow> error + table" where
  "nlargest t n c =
     (if dtype_of t c \<noteq> Numeric then Inl TypeError
      else bind_err (sort_values t c False) (\<lambda>s. Inr (s\<lparr>rows := take n (rows s)\<rparr>)))"

definition nsmallest :: "table \<Rightarrow> nat \<Rightarrow> string \<Rightarrow> error + table" where
  "nsmallest t n c =
     (if dtype_of t c \<noteq> Numeric then Inl TypeError
      else bind_err (sort_values t c True) (\<lambda>s. Inr (s\<lparr>rows := take n (rows s)\<rparr>)))"

text \<open>\<^verbatim>\<open>Series.sum()\<close> of a numeric column: the sum of its numbers.\<close>

definition series_sum :: "cell list \<Rightarrow> real" where
  "series_sum cs = sum_list (nums cs)"

definition median :: "real list \<Rightarrow> real" where
  "median xs =
     (let s = sort xs; n = length s
      in if odd n then s ! (n div 2) else (s ! (n div 2 - 1) + s ! (n div 2)) / 2)"

text \<open>
  One aggregate of the numbers of one group. \<open>sum\<close> and \<open>count\<close> of no number are 0;
  the others are missing.
\<close>

definition agg_numbers :: "string \<Rightarrow> real list \<Rightarrow> cell" where
  "agg_numbers func xs =
     (if func = ''sum'' then Num (sum_list xs)
      else if func = ''count'' then Num (real (length xs))
      else (case xs of
              [] \<Rightarrow> NaN
            | x # ys \<Rightarrow>
                if func = ''mean'' then Num (np_mean xs)
                else if func = ''median'' then Num (median xs)
                else if func = ''min'' then Num (fold min ys x)
                else Num (fold max ys x)))"

text \<open>
  One aggregate of the strings of one group of an object column: the least and the
  greatest string, the concatenation for \<open>sum\<close>; there is no mean or median of strings.
\<close>

definition agg_strings :: "string \<Rightarrow> string list \<Rightarrow> error + cell" where
  "agg_strings func xs =
     (if func = ''count'' then Inr (Num (real (length xs)))
      else (case xs of
              [] \<Rightarrow> Inr NaN
            | x # ys \<Rightarrow>
                if func = ''sum'' then Inr (Str (concat xs))
                else if func = ''min'' then Inr (Str (hd (sort_by_le str_le xs)))
                else if func = ''max'' then Inr (Str (last (sort_by_le str_le xs)))
                else Inl TypeError))"

definition agg_cells :: "string \<Rightarrow> cell list \<Rightarrow> error + cell" where
  "agg_cells func cs =
     (let present = filter (\<lambda>c. c \<noteq> NaN) cs
      in if list_all is_num present then Inr (agg_numbers func (nums present))
         else if list_all is_str present then agg_strings func (strs present)
         else if func = ''count'' then Inr (Num (real (length present)))
         else Inl TypeError)"

definition agg_dtype :: "string \<Rightarrow> dtype \<Rightarrow> dtype" where
  "agg_dtype func d = (if func = ''count'' then Numeric else d)"

text \<open>Collecting results, the first error winning.\<close>

fun collect :: "(error + 'a) list \<Rightarrow> error + 'a list" where
  "collect [] = Inr []"
| "collect (Inl e # ms) = Inl e"
| "collect (Inr x # ms) = (case collect ms of Inl e \<Rightarrow> Inl e | Inr xs \<Rightarrow> Inr (x # xs))"

text \<open>
  \<^verbatim>\<open>df.groupby(g, as_index=False)[cols].agg(func)\<close>: one row per distinct non-missing
  key, the keys in order; the key column first (unless \<open>cols\<close> selects it already), then
  the aggregate of each selected column over the rows of the key.
\<close>

definition group_keys :: "cell list \<Rightarrow> cell list" where
  "group_keys ks = sort_by_le cell_le (remdups (filter (\<lambda>k. k \<noteq> NaN) ks))"

definition groupby_agg :: "table \<Rightarrow> string \<Rightarrow> string list \<Rightarrow> string \<Rightarrow> error + table" where
  "groupby_agg t g cols func =
     (let key_col = (if g \<in> set cols then [] else [(g, dtype_of t g)]);
          group = (\<lambda>k. filter (\<lambda>r. r ! pos g (names t) = k) (rows t));
          row_of = (\<lambda>k. bind_err (collect (map (\<lambda>c. agg_cells func (cells_of t c (group k))) cols))
                     (\<lambda>vs. Inr ((if g \<in> set cols then [] else [k]) @ vs)))
      in bind_err (collect (map row_of (group_keys (cells_of t g (rows t)))))
           (\<lambda>rs. Inr \<lparr>columns = key_col @ map (\<lambda>c. (c, agg_dtype func (dtype_of t c))) cols,
                       rows = rs\<rparr>))"

text \<open>\<^verbatim>\<open>df.rename(columns={old: new})\<close>.\<close>

definition rename :: "table \<Rightarrow> string \<Rightarrow> string \<Rightarrow> table" where
  "rename t old new = t\<lparr>columns := map (\<lambda>(c, d). (if c = old then new else c, d)) (columns t)\<rparr>"

text \<open>
  A table is well typed when its column names are distinct, every row has one cell per
  column and no numeric column holds a string.
\<close>

definition well_typed :: "table \<Rightarrow> bool" where
  "well_typed t \<longleftrightarrow>
     distinct (names t)
     \<and> (\<forall>r \<in> set (rows t). length r = length (columns t)
           \<and> (\<forall>i < length r. snd (columns t ! i) = Numeric \<longrightarrow> \<not> is_str (r ! i)))"

section \<open>The reduction pipeline\<close>

text \<open>
  The keyword arguments of \<^verbatim>\<open>reduce_data\<close>; \<open>None\<close> is an argument that is absent
  (or passed as \<^verbatim>\<open>None\<close>). \<open>y_col\<close> is a name, a list of names or \<^verbatim>\<open>None\<close>.
\<close>

record params =
  x_col :: "string option"
  groupby :: "string option"
  agg_func :: "string option"
  top_n :: "int option"
  bottom_n :: "int option"
  sort_by :: "string option"
  sort_order :: "string option"
  max_categories :: "int option"



text \<open>Python truth of an optional string and of an optional count.\<close>

fun truthy :: "string option \<Rightarrow> bool" where
  "truthy None = False"
| "truthy (Some s) = (s \<noteq> [])"

fun in_columns :: "string option \<Rightarrow> table \<Rightarrow> bool" where
  "in_columns None t = False"
| "in_columns (Some c) t = (c \<in> set (names t))"

fun name_of :: "string option \<Rightarrow> string" where
  "name_of None = []"
| "name_of (Some s) = s"

text \<open>\<^verbatim>\<open>n and n > 0\<close> holds exactly when the count below is positive.\<close>

fun count_of :: "int option \<Rightarrow> nat" where
  "count_of None = 0"
| "count_of (Some n) = nat n"

text \<open>\<^verbatim>\<open>agg_map.get(agg_func, "mean")\<close>.\<close>

definition agg_map :: "string \<Rightarrow> string" where
  "agg_map f =
     (if f \<in> set [''mean'', ''sum'', ''median'', ''count'', ''min'', ''max''] then f
      else ''mean'')"

text \<open>The columns the aggregate stage selects.\<close>

definition agg_cols :: "table \<Rightarrow> string \<Rightarrow> string option \<Rightarrow> string list" where
  "agg_cols t g yp =
     (let numeric_cols = map fst (filter (\<lambda>(c, d). d = Numeric) (columns t));
          cs = filter (\<lambda>c. c \<noteq> g) numeric_cols
      in if cs = [] then (if in_columns yp t then [name_of yp] else []) else cs)"

text \<open>Stage 1: aggregation.\<close>

definition aggregate_stage :: "params \<Rightarrow> string option \<Rightarrow> table \<Rightarrow> error + table" where
  "aggregate_stage p yp df =
     (if truthy (groupby p) \<and> truthy (agg_func p) \<and> in_columns (groupby p) df then
        (let g = name_of (groupby p);
             func = agg_map (name_of (agg_func p))
         in bind_err (groupby_agg df g (agg_cols df g yp) func)
              (\<lambda>d. if truthy (x_col p) \<and> \<not> in_columns (x_col p) d \<and> g \<in> set (names d)
                    then Inr (rename d g (name_of (x_col p))) else Inr d))
      else Inr df)"

text \<open>Stage 2: sort. \<^verbatim>\<open>sort_col = sort_by or y_primary\<close>.\<close>

definition sort_col :: "params \<Rightarrow> string option \<Rightarrow> string option" where
  "sort_col p yp = (if truthy (sort_by p) then sort_by p else yp)"

definition sort_stage :: "params \<Rightarrow> string option \<Rightarrow> table \<Rightarrow> error + table" where
  "sort_stage p yp df =
     (if truthy (sort_col p yp) \<and> in_columns (sort_col p yp) df
      then sort_values df (name_of (sort_col p yp)) (sort_order p = Some ''asc'')
      else Inr df)"

text \<open>Stage 3: top or bottom N.\<close>

definition rank_limit_stage :: "params \<Rightarrow> string option \<Rightarrow> table \<Rightarrow> error + table" where
  "rank_limit_stage p yp df =
     (let c = name_of (sort_col p yp)
      in if 0 < count_of (top_n p) then
           (if in_columns (sort_col p yp) df
            then bind_err (nlargest df (count_of (top_n p)) c) (\<lambda>d. sort_values d c False)
            else Inr df)
         else if 0 < count_of (bottom_n p) then
           (if in_columns (sort_col p yp) df
            then bind_err (nsmallest df (count_of (bottom_n p)) c) (\<lambda>d. sort_values d c True)
            else Inr df)
         else Inr df)"

text \<open>
  Stage 4: the rows after the first \<open>max_categories\<close> become one row \<open>Other\<close>. The x
  column then holds a string, so it is an object column of the result.
\<close>

definition other_row :: "table \<Rightarrow> string \<Rightarrow> cell list list \<Rightarrow> cell list" where
  "other_row df x rest =
     map (\<lambda>(c, d). if c = x then Str ''Other''
                   else if d = Numeric then Num (series_sum (cells_of df c rest))
                   else Str ''Other'') (columns df)"

definition collapse_stage :: "params \<Rightarrow> table \<Rightarrow> table" where
  "collapse_stage p df =
     (if 0 < count_of (max_categories p) \<and> truthy (x_col p) \<and> in_columns (x_col p) df
         \<and> count_of (max_categories p) < length (rows df)
      then (let k = count_of (max_categories p); x = name_of (x_col p)
            in \<lparr>columns = map (\<lambda>(c, d). (c, if c = x then Object else d)) (columns df),
                rows = take k (rows df) @ [other_row df x (drop k (rows df))]\<rparr>)
      else df)"


section \<open>Concrete inputs\<close>



definition cp_example :: "real option list" where
  "cp_example = [Some 0, Some 2, Some 5, Some 10, Some 12]"

definition cp_missing_example :: "real option list" where
  "cp_missing_example = [Some 0, Some 2, None, Some 10, Some 12, Some 5, Some 20, Some 22]"

definition cp_highlight :: "int \<Rightarrow> real \<Rightarrow> highlight" where
  "cp_highlight i v =
     \<lparr>index = i, val = v, reason = ''Changepoint (increase)'', method_name = ''changepoint'',
      severity = ''high'', label = Text ''Shift: increase'',
      suggested_style = ''band_shade'', metric = Some (''shift_magnitude'', 10)\<rparr>"




definition no_params :: params where
  "no_params =
     \<lparr>x_col = None, groupby = None, agg_func = None, top_n = None, bottom_n = None,
      sort_by = None, sort_order = None, max_categories = None\<rparr>"

definition two_rows :: table where
  "two_rows =
     \<lparr>columns = [(''category'', Object), (''value'', Numeric)],
      rows = [[Str ''A'', Num 1], [Str ''B'', Num 2]]\<rparr>"





definition regions :: table where
  "regions =
     \<lparr>columns = [(''region'', Object), (''year'', Numeric), (''cost'', Numeric)],
      rows = [[Str ''N'', Num 2001, Num 5], [Str ''N'', Num 2002, Num 7],
              [Str ''S'', Num 2001, Num 1]]\<rparr>"

definition by_region :: "string \<Rightarrow> params" where
  "by_region x =
     no_params\<lparr>x_col := Some x, groupby := Some ''region'', agg_func := Some ''sum''\<rparr>"



definition regions_by_sum :: table where
  "regions_by_sum =
     \<lparr>columns = [(''region'', Object), (''year'', Numeric), (''cost'', Numeric)],
      rows = [[Str ''N'', Num 4003, Num 12], [Str ''S'', Num 2001, Num 1]]\<rparr>"

section \<open>Facts about the helpers\<close>







section \<open>Z-score detector: scenario 1\<close>








section \<open>Min/max detector\<close>






section \<open>Changepoint detector\<close>

lemma changepoint_at_index:
  "h \<in> set (changepoint_at values window threshold i v) \<Longrightarrow> index h = i \<and> val h = v"
  by (auto simp: changepoint_at_def Let_def split: if_splits)

lemma changepoint_loop_sound:
  "changepoint_loop values window threshold is = Inr hs \<Longrightarrow> h \<in> set hs \<Longrightarrow>
     index h \<in> set is \<and> py_get values (index h) = Inr (Some (val h))"
proof (induction "is" arbitrary: hs)
  case Nil
  then show ?case by simp
next
  case (Cons i "is")
  show ?case
  proof (cases "py_get values i")
    case (Inl e)
    with Cons.prems show ?thesis by simp
  next
    case (Inr ov)
    show ?thesis
    proof (cases ov)
      case None
      with Inr Cons show ?thesis by simp
    next
      case (Some v)
      with Inr Cons.prems obtain hs' where
        hs': "changepoint_loop values window threshold is = Inr hs'"
        and hs: "hs = changepoint_at values window threshold i v @ hs'"
        by (auto split: sum.splits)
      from Cons.prems(2) hs consider "h \<in> set (changepoint_at values window threshold i v)"
        | "h \<in> set hs'" by auto
      then show ?thesis
      proof cases
        case 1
        with changepoint_at_index [OF 1] Inr Some show ?thesis by simp
      next
        case 2
        with Cons.IH [OF hs'] show ?thesis by simp
      qed
    qed
  qed
qed

lemma changepoint_loop_total:
  "\<forall>i \<in> set is. 0 \<le> i \<and> i < int (length values) \<Longrightarrow>
     \<exists>hs. changepoint_loop values window threshold is = Inr hs"
proof (induction "is")
  case Nil
  then show ?case by simp
next
  case (Cons i "is")
  then obtain hs where hs: "changepoint_loop values window threshold is = Inr hs" by auto
  from Cons.prems have "py_get values i = Inr (values ! nat i)"
    by (simp add: py_get_def)
  with hs show ?case by (cases "values ! nat i") simp_all
qed

lemma changepoint_loop_raises:
  "i \<in> set is \<Longrightarrow> py_get values i = Inl e \<Longrightarrow>
     \<exists>e'. changepoint_loop values window threshold is = Inl e'"
proof (induction "is")
  case Nil
  then show ?case by simp
next
  case (Cons j "is")
  show ?case
  proof (cases "py_get values j")
    case (Inl e')
    then show ?thesis by simp
  next
    case (Inr ov)
    with Cons have "i \<in> set is" by auto
    with Cons obtain e' where "changepoint_loop values window threshold is = Inl e'" by auto
    with Inr show ?thesis by (cases ov) simp_all
  qed
qed

lemma changepoint_negative_window:
  assumes "window < 0"
  shows "\<exists>e. detect_changepoint values window threshold = Inl e"
proof -
  let ?n = "int (length values)"
  have "?n \<in> set [window .. ?n - window - 1]" using assms by simp
  moreover have "py_get values ?n = Inl IndexError" by (simp add: py_get_def)
  ultimately obtain e where
    "changepoint_loop values window threshold [window .. ?n - window - 1] = Inl e"
    using changepoint_loop_raises by blast
  moreover have "\<not> ?n < window * 2 + 1" using assms by linarith
  ultimately show ?thesis by (simp add: detect_changepoint_def Let_def)
qed

lemma detect_changepoint_sound:
  assumes "detect_changepoint values window threshold = Inr hs" and "h \<in> set hs"
  shows "0 \<le> window \<and> window \<le> index h \<and> index h < int (length values) - window
     \<and> py_get values (index h) = Inr (Some (val h))"
proof -
  from changepoint_negative_window [of window "values" threshold] assms(1)
  have w: "0 \<le> window" by fastforce
  show ?thesis
  proof (cases "int (length values) < window * 2 + 1")
    case True
    with assms show ?thesis by (simp add: detect_changepoint_def)
  next
    case False
    with assms(1) have
      "changepoint_loop values window threshold [window .. int (length values) - window - 1] = Inr hs"
      by (simp add: detect_changepoint_def Let_def)
    from changepoint_loop_sound [OF this assms(2)] w show ?thesis by simp
  qed
qed

lemma cp_example_eval: "detect_changepoint cp_example 2 2 = Inr [cp_highlight 2 5]"
  by (simp add: detect_changepoint_def cp_example_def py_get_def changepoint_at_def
      py_slice_def slice_bound_def np_mean_def np_var_def Let_def power2_eq_square
      py_round2_def round_half_even_def cp_highlight_def)

lemma cp_missing_eval:
  "detect_changepoint cp_missing_example 2 2 = Inr [cp_highlight 5 5]"
  by (simp add: detect_changepoint_def cp_missing_example_def py_get_def changepoint_at_def
      py_slice_def slice_bound_def np_mean_def np_var_def Let_def power2_eq_square
      py_round2_def round_half_even_def cp_highlight_def)

lemma cp_missing_would_flag:
  "changepoint_at cp_missing_example 2 2 2 v = [(cp_highlight 2 v)]"
  by (simp add: cp_missing_example_def changepoint_at_def
      py_slice_def slice_bound_def np_mean_def np_var_def Let_def power2_eq_square
      py_round2_def round_half_even_def cp_highlight_def)

text \<open>
  C7: with \<open>n\<close> the length of the sequence and \<open>W\<close> the window, the changepoint
  detector returns the empty list when \<open>n < 2W + 1\<close>; every highlight of a list it
  returns has an index \<open>i\<close> with \<open>W \<le> i < n - W\<close>; and it does return a list for
  every window that is not negative.
\<close>

theorem changepoint_index_range:
  "(int (length values) < 2 * window + 1 \<longrightarrow> detect_changepoint values window threshold = Inr [])
   \<and> (detect_changepoint values window threshold = Inr hs \<longrightarrow>
        (\<forall>h \<in> set hs. window \<le> index h \<and> index h < int (length values) - window))
   \<and> (0 \<le> window \<longrightarrow> (\<exists>hs'. detect_changepoint values window threshold = Inr hs'))"
proof (intro conjI impI)
  assume "int (length values) < 2 * window + 1"
  then show "detect_changepoint values window threshold = Inr []"
    by (simp add: detect_changepoint_def Let_def mult.commute)
next
  assume "detect_changepoint values window threshold = Inr hs"
  then show "\<forall>h \<in> set hs. window \<le> index h \<and> index h < int (length values) - window"
    using detect_changepoint_sound by blast
next
  assume w: "0 \<le> window"
  have "\<exists>hs'. changepoint_loop values window threshold
          [window .. int (length values) - window - 1] = Inr hs'"
    by (rule changepoint_loop_total) (use w in auto)
  then show "\<exists>hs'. detect_changepoint values window threshold = Inr hs'"
    by (auto simp: detect_changepoint_def Let_def)
qed

theorem changepoint_index_range_witness:
  "int (length [Some 1, Some (2::real)]) < 2 * 2 + 1
   \<and> detect_changepoint [Some 1, Some 2] 2 2 = Inr []
   \<and> detect_changepoint cp_example 2 2 = Inr [cp_highlight 2 5]
   \<and> 2 \<le> index (cp_highlight 2 5)
   \<and> index (cp_highlight 2 5) < int (length cp_example) - 2
   \<and> (0::int) \<le> 2"
  using changepoint_index_range [of "[Some 1, Some 2]" 2 2 "[]"]
    changepoint_index_range [of cp_example 2 2 "[cp_highlight 2 5]"]
  by (simp add: cp_example_eval)

text \<open>
  C9: every highlight the changepoint detector emits sits at a position of the
  sequence whose own value is not missing (and carries that value): a position whose
  value is not-a-number is skipped, whatever its two windows hold.
\<close>

theorem changepoint_skips_missing:
  assumes "detect_changepoint values window threshold = Inr hs" and "h \<in> set hs"
  shows "0 \<le> index h \<and> index h < int (length values)
     \<and> values ! nat (index h) = Some (val h)"
proof -
  from detect_changepoint_sound [OF assms]
  have b: "0 \<le> index h" "index h < int (length values)"
    and g: "py_get values (index h) = Inr (Some (val h))" by auto
  from g b show ?thesis by (simp add: py_get_def)
qed

theorem changepoint_skips_missing_witness:
  "detect_changepoint cp_missing_example 2 2 = Inr [cp_highlight 5 5]
   \<and> cp_highlight 5 5 \<in> set [cp_highlight 5 5]
   \<and> cp_missing_example ! nat (index (cp_highlight 5 5)) = Some (val (cp_highlight 5 5))
   \<and> cp_missing_example ! 2 = None
   \<and> changepoint_at cp_missing_example 2 2 2 0 = [cp_highlight 2 0]"
  using changepoint_skips_missing [of cp_missing_example 2 2 "[cp_highlight 5 5]"
      "cp_highlight 5 5"]
  by (simp add: cp_missing_eval cp_missing_would_flag)
     (simp add: cp_missing_example_def)

section \<open>Merge / deduplicate\<close>











section \<open>Category collapse\<close>








section \<open>Stages without parameters\<close>

lemma two_rows_sorted:
  "sort_stage no_params (Some ''value'') two_rows =
     Inr \<lparr>columns = [(''category'', Object), (''value'', Numeric)],
          rows = [[Str ''B'', Num 2], [Str ''A'', Num 1]]\<rparr>"
  by (simp add: sort_stage_def sort_col_def no_params_def two_rows_def names_def
      sort_values_def comparable_def sort_by_le_def)

text \<open>
  C4, as stated, fails for the sort stage: with no sort column and no sort order
  supplied it still sorts by the primary value column, in descending order.
\<close>

theorem sort_stage_default_counterexample:
  "sort_by no_params = None \<and> sort_order no_params = None
   \<and> sort_stage no_params (Some ''value'') two_rows =
       Inr \<lparr>columns = [(''category'', Object), (''value'', Numeric)],
            rows = [[Str ''B'', Num 2], [Str ''A'', Num 1]]\<rparr>
   \<and> sort_stage no_params (Some ''value'') two_rows \<noteq> Inr two_rows"
  by (simp add: two_rows_sorted) (simp add: no_params_def two_rows_def)

text \<open>
  C4, amended: the aggregate stage without a group-by column or without an aggregation
  function, the rank-limit stage without top and bottom counts and the category
  collapse without a maximum category count return their input unchanged. The sort
  stage without a sort column sorts by the primary value column (descending unless the
  order \<open>asc\<close> is supplied) and returns its input unchanged only when there is no
  primary value column or the table does not have it.
\<close>

theorem absent_stage_parameters:
  "(groupby p = None \<or> agg_func p = None \<longrightarrow> aggregate_stage p yp df = Inr df)
   \<and> (top_n p = None \<and> bottom_n p = None \<longrightarrow> rank_limit_stage p yp df = Inr df)
   \<and> (max_categories p = None \<longrightarrow> collapse_stage p df = df)
   \<and> (sort_by p = None \<longrightarrow>
        sort_stage p yp df =
          (if truthy yp \<and> in_columns yp df
           then sort_values df (name_of yp) (sort_order p = Some ''asc'') else Inr df))"
  by (auto simp: aggregate_stage_def rank_limit_stage_def collapse_stage_def sort_stage_def
      sort_col_def Let_def)

theorem absent_stage_parameters_witness:
  "groupby no_params = None \<and> aggregate_stage no_params (Some ''value'') two_rows = Inr two_rows
   \<and> top_n no_params = None \<and> bottom_n no_params = None
   \<and> rank_limit_stage no_params (Some ''value'') two_rows = Inr two_rows
   \<and> max_categories no_params = None \<and> collapse_stage no_params two_rows = two_rows
   \<and> sort_by no_params = None
   \<and> sort_stage no_params (Some ''value'') two_rows =
       sort_values two_rows ''value'' False
   \<and> sort_stage no_params (Some ''missing'') two_rows = Inr two_rows"
  using absent_stage_parameters [of no_params "Some ''value''" two_rows]
    absent_stage_parameters [of no_params "Some ''missing''" two_rows]
  by (simp add: no_params_def two_rows_def names_def)

section \<open>Scenario 4: five categories, at most three\<close>





section \<open>Aggregate stage: the group key and the x column\<close>

lemma groupby_agg_names:
  assumes "groupby_agg t g cols func = Inr d"
  shows "names d = (if g \<in> set cols then [] else [g]) @ cols"
  using assms
  by (auto simp: groupby_agg_def bind_err_def names_def comp_def Let_def split: sum.splits)

lemma names_rename: "names (rename d old new) = map (\<lambda>c. if c = old then new else c) (names d)"
  by (simp add: rename_def names_def comp_def case_prod_beta)

lemma collect_total:
  "\<forall>m \<in> set ms. \<exists>x. m = Inr x \<Longrightarrow> \<exists>xs. collect ms = Inr xs"
proof (induction ms)
  case Nil
  then show ?case by simp
next
  case (Cons m ms)
  then obtain x xs where "m = Inr x" and "collect ms = Inr xs" by auto
  then show ?case by simp
qed

lemma present_numbers:
  "list_all (\<lambda>c. \<not> is_str c) cs \<Longrightarrow> list_all is_num (filter (\<lambda>c. c \<noteq> NaN) cs)"
proof (induction cs)
  case Nil
  then show ?case by simp
next
  case (Cons c cs)
  then show ?case by (cases c) simp_all
qed

lemma agg_cells_total:
  "list_all (\<lambda>c. \<not> is_str c) cs \<Longrightarrow> \<exists>v. agg_cells func cs = Inr v"
  by (simp add: agg_cells_def Let_def present_numbers)

lemma pos_map_fst:
  "distinct (map fst xs) \<Longrightarrow> (c, d) \<in> set xs \<Longrightarrow>
     pos c (map fst xs) < length xs \<and> xs ! pos c (map fst xs) = (c, d)"
proof (induction xs)
  case Nil
  then show ?case by simp
next
  case (Cons x xs)
  then show ?case by (cases x) (auto simp: image_iff)
qed

lemma numeric_column_cells:
  assumes "well_typed t" and "(c, Numeric) \<in> set (columns t)" and "set rs \<subseteq> set (rows t)"
  shows "list_all (\<lambda>v. \<not> is_str v) (cells_of t c rs)"
proof -
  from assms(1) have d: "distinct (map fst (columns t))" by (simp add: well_typed_def names_def)
  from pos_map_fst [OF d assms(2)] have p: "pos c (names t) < length (columns t)"
    and n: "snd (columns t ! pos c (names t)) = Numeric" by (simp_all add: names_def)
  have "\<not> is_str (r ! pos c (names t))" if "r \<in> set rs" for r
  proof -
    from that assms(3) have "r \<in> set (rows t)" by auto
    with assms(1) p n show ?thesis by (simp add: well_typed_def)
  qed
  then show ?thesis by (simp add: cells_of_def list_all_iff)
qed

lemma groupby_agg_total:
  assumes "well_typed t" and "\<forall>c \<in> set cols. (c, Numeric) \<in> set (columns t)"
  shows "\<exists>d. groupby_agg t g cols func = Inr d"
proof -
  let ?group = "\<lambda>k. filter (\<lambda>r. r ! pos g (names t) = k) (rows t)"
  let ?row_of = "\<lambda>k. bind_err (collect (map (\<lambda>c. agg_cells func (cells_of t c (?group k))) cols))
                     (\<lambda>vs. Inr ((if g \<in> set cols then [] else [k]) @ vs))"
  have row: "\<exists>r. ?row_of k = Inr r" for k
  proof -
    have "\<forall>m \<in> set (map (\<lambda>c. agg_cells func (cells_of t c (?group k))) cols). \<exists>x. m = Inr x"
      using assms numeric_column_cells [OF assms(1), of _ "?group k"] agg_cells_total
      by auto
    from collect_total [OF this] show ?thesis by (auto simp: bind_err_def)
  qed
  have "\<forall>m \<in> set (map ?row_of (group_keys (cells_of t g (rows t)))). \<exists>x. m = Inr x"
    using row by auto
  from collect_total [OF this] show ?thesis
    by (auto simp: groupby_agg_def bind_err_def Let_def)
qed

lemma agg_cols_numeric:
  assumes "filter (\<lambda>c. c \<noteq> g) (map fst (filter (\<lambda>(c, d). d = Numeric) (columns t))) \<noteq> []"
  shows "\<forall>c \<in> set (agg_cols t g yp). (c, Numeric) \<in> set (columns t)"
  using assms by (auto simp: agg_cols_def Let_def)

lemma regions_agg:
  "groupby_agg regions ''region'' [''year'', ''cost''] ''sum'' = Inr regions_by_sum"
  by (simp add: groupby_agg_def regions_def names_def dtype_of_def cells_of_def
      group_keys_def sort_by_le_def bind_err_def agg_cells_def agg_numbers_def agg_dtype_def
      regions_by_sum_def)

lemma regions_agg_cols: "agg_cols regions ''region'' yp = [''year'', ''cost'']"
  by (simp add: agg_cols_def regions_def)

text \<open>
  C8, as stated, fails when the x column is one of the aggregated columns: group-by
  column and x column differ, yet the group key keeps its name.
\<close>

theorem aggregate_rename_counterexample:
  "groupby (by_region ''year'') = Some ''region'' \<and> agg_func (by_region ''year'') = Some ''sum''
   \<and> x_col (by_region ''year'') = Some ''year'' \<and> ''region'' \<noteq> ''year''
   \<and> aggregate_stage (by_region ''year'') (Some ''cost'') regions = Inr regions_by_sum
   \<and> names regions_by_sum = [''region'', ''year'', ''cost'']"
  by (simp add: aggregate_stage_def by_region_def no_params_def agg_map_def
      regions_agg_cols regions_agg bind_err_def)
     (simp add: regions_def regions_by_sum_def names_def)

text \<open>
  C8, amended: when a group-by column of the input table and an aggregation function
  are supplied and the aggregation succeeds, the group-key column of the aggregated
  table is renamed to the caller's x column name exactly when that name is not already
  a column of the aggregated table; otherwise the aggregated table is returned with
  its column names unchanged.
\<close>

theorem aggregate_rename:
  assumes "groupby p = Some g" and "g \<noteq> []" and "agg_func p = Some f" and "f \<noteq> []"
    and "x_col p = Some x" and "x \<noteq> []" and "g \<in> set (names df)"
  shows "(\<forall>d. groupby_agg df g (agg_cols df g yp) (agg_map f) = Inr d \<longrightarrow>
            g \<in> set (names d)
            \<and> (x \<notin> set (names d) \<longrightarrow>
                 aggregate_stage p yp df = Inr (rename d g x)
                 \<and> names (rename d g x) = map (\<lambda>c. if c = g then x else c) (names d)
                 \<and> x \<in> set (names (rename d g x)) \<and> g \<notin> set (names (rename d g x)))
            \<and> (x \<in> set (names d) \<longrightarrow> aggregate_stage p yp df = Inr d))
     \<and> (well_typed df \<and> (\<exists>c. c \<noteq> g \<and> (c, Numeric) \<in> set (columns df)) \<longrightarrow>
          (\<exists>d. groupby_agg df g (agg_cols df g yp) (agg_map f) = Inr d))"
proof (intro conjI allI impI)
  fix d
  assume a: "groupby_agg df g (agg_cols df g yp) (agg_map f) = Inr d"
  show g: "g \<in> set (names d)"
    using groupby_agg_names [OF a] by (auto split: if_splits)
  have s: "aggregate_stage p yp df =
      (if x \<notin> set (names d) then Inr (rename d g x) else Inr d)"
    using assms a g by (simp add: aggregate_stage_def bind_err_def Let_def)
  show "aggregate_stage p yp df = Inr d" if "x \<in> set (names d)"
    using that s by simp
  show "aggregate_stage p yp df = Inr (rename d g x)" if "x \<notin> set (names d)"
    using that s by simp
  show "names (rename d g x) = map (\<lambda>c. if c = g then x else c) (names d)"
    by (rule names_rename)
  show "x \<in> set (names (rename d g x))" using g by (auto simp: names_rename)
  show "g \<notin> set (names (rename d g x))" if "x \<notin> set (names d)"
    using that g by (auto simp: names_rename)
next
  assume w: "well_typed df \<and> (\<exists>c. c \<noteq> g \<and> (c, Numeric) \<in> set (columns df))"
  then obtain c where c: "c \<noteq> g" "(c, Numeric) \<in> set (columns df)" by blast
  then have "c \<in> set (filter (\<lambda>c. c \<noteq> g)
      (map fst (filter (\<lambda>(c, d). d = Numeric) (columns df))))" by force
  then have "filter (\<lambda>c. c \<noteq> g)
      (map fst (filter (\<lambda>(c, d). d = Numeric) (columns df))) \<noteq> []" by force
  from agg_cols_numeric [OF this] w
  show "\<exists>d. groupby_agg df g (agg_cols df g yp) (agg_map f) = Inr d"
    by (intro groupby_agg_total) auto
qed

lemma regions_well_typed: "well_typed regions"
  by (simp add: well_typed_def regions_def names_def less_Suc_eq numeral_3_eq_3)

theorem aggregate_rename_witness:
  "groupby (by_region ''area'') = Some ''region'' \<and> agg_func (by_region ''area'') = Some ''sum''
   \<and> x_col (by_region ''area'') = Some ''area'' \<and> ''region'' \<in> set (names regions)
   \<and> well_typed regions \<and> (''cost'', Numeric) \<in> set (columns regions)
   \<and> groupby_agg regions ''region'' (agg_cols regions ''region'' (Some ''cost''))
        (agg_map ''sum'') = Inr regions_by_sum
   \<and> ''area'' \<notin> set (names regions_by_sum)
   \<and> aggregate_stage (by_region ''area'') (Some ''cost'') regions =
       Inr (rename regions_by_sum ''region'' ''area'')
   \<and> names (rename regions_by_sum ''region'' ''area'') = [''area'', ''year'', ''cost'']"
  using aggregate_rename [of "by_region ''area''" "''region''" "''sum''" "''area''" regions
      "Some ''cost''"]
  by (simp add: by_region_def no_params_def agg_map_def regions_agg_cols regions_agg
      regions_well_typed)
     (simp add: regions_def regions_by_sum_def names_def rename_def)

end
